theory Spec2Isabelle
  imports Main "HOL-Library.AList"
begin

section \<open>Strings and characters\<close>

text \<open>
  The script \<^verbatim>\<open>build_kicad_library.py\<close> works on Python \<^verbatim>\<open>str\<close> values. A \<^verbatim>\<open>str\<close> is modelled
  by the \<^typ>\<open>string\<close> of its UTF-8 encoding: an ASCII character is one \<^typ>\<open>char\<close> with the
  same code, and every other code point is a run of \<^typ>\<open>char\<close>s with codes from 128 upwards.
  The character classes of the script name ASCII characters only, so a non-ASCII code point
  is outside \<^verbatim>\<open>[a-zA-Z0-9_]\<close> exactly as each of its bytes is.
\<close>

definition char_range :: "char \<Rightarrow> char \<Rightarrow> char \<Rightarrow> bool" where
  \<comment> \<open>a range \<^verbatim>\<open>lo-hi\<close> inside a regular-expression character class: by character code\<close>
  "char_range lo hi c = ((of_char lo :: nat) \<le> of_char c \<and> (of_char c :: nat) \<le> of_char hi)"

definition re_sub_class :: "(char \<Rightarrow> bool) \<Rightarrow> string \<Rightarrow> string \<Rightarrow> string" where
  \<comment> \<open>\<^verbatim>\<open>re.sub(pattern, repl, s)\<close> for a pattern that is one character class: every
      matching character is replaced by \<^verbatim>\<open>repl\<close>, every other one is kept\<close>
  "re_sub_class matches repl s = concat (map (\<lambda>c. if matches c then repl else [c]) s)"

definition space_or_hyphen :: "char \<Rightarrow> bool" where
  \<comment> \<open>the class \<^verbatim>\<open>[ -]\<close>\<close>
  "space_or_hyphen c = (c = CHR '' '' \<or> c = CHR ''-'')"

definition word_char :: "char \<Rightarrow> bool" where
  \<comment> \<open>the class \<^verbatim>\<open>[a-zA-Z0-9_]\<close>\<close>
  "word_char c = (char_range CHR ''a'' CHR ''z'' c \<or> char_range CHR ''A'' CHR ''Z'' c
     \<or> char_range CHR ''0'' CHR ''9'' c \<or> c = CHR ''_'')"

definition isdigit :: "char \<Rightarrow> bool" where
  \<comment> \<open>\<^verbatim>\<open>str.isdigit\<close> on one character. The script applies it to the first character left
      by the \<^verbatim>\<open>[^a-zA-Z0-9_]\<close> filter only, where it holds exactly for 0 to 9.\<close>
  "isdigit c = char_range CHR ''0'' CHR ''9'' c"

section \<open>Helper functions of the script\<close>

definition sanitize_sql_name :: "string \<Rightarrow> string" where
  "sanitize_sql_name name =
     (let clean = re_sub_class space_or_hyphen ''_'' name;
          clean = re_sub_class (\<lambda>c. \<not> word_char c) [] clean
      in if clean \<noteq> [] \<and> isdigit (hd clean) then ''_'' @ clean else clean)"

subsection \<open>The sanitizer as the specification words it\<close>

definition spec_replace :: "string \<Rightarrow> string" where
  \<comment> \<open>replace spaces and hyphens with underscore\<close>
  "spec_replace x = map (\<lambda>c. if c = CHR '' '' \<or> c = CHR ''-'' then CHR ''_'' else c) x"

definition spec_allowed :: "char set" where
  \<comment> \<open>the characters of \<^verbatim>\<open>[A-Za-z0-9_]\<close>, listed\<close>
  "spec_allowed = set ''ABCDEFGHIJKLMNOPQRSTUVWXYZabcdefghijklmnopqrstuvwxyz0123456789_''"

definition spec_digits :: "char set" where
  "spec_digits = set ''0123456789''"

definition spec_sanitize :: "string \<Rightarrow> string" where
  \<comment> \<open>replace, then strip, then prefix an underscore if the result starts with a digit\<close>
  "spec_sanitize x =
     (let r = filter (\<lambda>c. c \<in> spec_allowed) (spec_replace x)
      in if r \<noteq> [] \<and> hd r \<in> spec_digits then CHR ''_'' # r else r)"

section \<open>String methods the script calls\<close>

definition lower_char :: "char \<Rightarrow> char" where
  "lower_char c = (if char_range CHR ''A'' CHR ''Z'' c then char_of (of_char c + (32::nat)) else c)"

definition upper_char :: "char \<Rightarrow> char" where
  "upper_char c = (if char_range CHR ''a'' CHR ''z'' c then char_of (of_char c - (32::nat)) else c)"

definition lower :: "string \<Rightarrow> string" where
  \<comment> \<open>\<^verbatim>\<open>str.lower\<close>: exact on ASCII. The script compares the result with ASCII words
      that have no letter k, and no non-ASCII code point lowers to another ASCII letter,
      so each comparison has Python's truth value on every string.\<close>
  "lower s = map lower_char s"

fun title_from :: "bool \<Rightarrow> string \<Rightarrow> string" where
  \<comment> \<open>\<^verbatim>\<open>str.title\<close>, with the flag "the previous character is cased"\<close>
  "title_from previous_is_cased [] = []"
| "title_from previous_is_cased (c # cs) =
     (if char_range CHR ''a'' CHR ''z'' c
      then (if previous_is_cased then c else upper_char c) # title_from True cs
      else if char_range CHR ''A'' CHR ''Z'' c
      then (if previous_is_cased then lower_char c else c) # title_from True cs
      else c # title_from False cs)"

definition title :: "string \<Rightarrow> string" where
  "title s = title_from False s"

definition replace_char :: "char \<Rightarrow> char \<Rightarrow> string \<Rightarrow> string" where
  \<comment> \<open>\<^verbatim>\<open>s.replace(old, new)\<close> for one-character strings\<close>
  "replace_char old new s = map (\<lambda>c. if c = old then new else c) s"

definition endswith :: "string \<Rightarrow> string \<Rightarrow> bool" where
  "endswith s suffix =
     (length suffix \<le> length s \<and> drop (length s - length suffix) s = suffix)"

fun contains :: "string \<Rightarrow> string \<Rightarrow> bool" where
  \<comment> \<open>\<^verbatim>\<open>sub in s\<close>\<close>
  "contains sub [] = (sub = [])"
| "contains sub (c # cs) = (take (length sub) (c # cs) = sub \<or> contains sub cs)"

fun join :: "string \<Rightarrow> string list \<Rightarrow> string" where
  \<comment> \<open>\<^verbatim>\<open>sep.join(xs)\<close>\<close>
  "join sep [] = []"
| "join sep [x] = x"
| "join sep (x # y # ys) = x @ sep @ join sep (y # ys)"

definition splitext_root :: "string \<Rightarrow> string" where
  \<comment> \<open>\<^verbatim>\<open>os.path.splitext(p)[0]\<close> for a directory entry (no path separator): the
      name up to its last dot, or the whole name when only dots stand before that dot\<close>
  "splitext_root p =
     (let root = rev (drop 1 (dropWhile (\<lambda>c. c \<noteq> CHR ''.'') (rev p)))
      in if CHR ''.'' \<notin> set p then p
         else if \<forall>c\<in>set root. c = CHR ''.'' then p
         else root)"

definition get_column_display_name :: "string \<Rightarrow> string" where
  "get_column_display_name col_name =
     (if lower col_name = ''mpn'' then ''MPN''
      else if lower col_name = ''lcsc'' then ''LCSC''
      else if lower col_name = ''mfg'' then ''Manufacturer''
      else title (replace_char CHR ''_'' CHR '' '' col_name))"

section \<open>Phase 1: the SQLite database\<close>

text \<open>
  The file system and the database engine are the environment of \<^verbatim>\<open>update_database\<close>.
  A directory entry carries what reading it as CSV gives and what the engine answers to
  the statements the script runs for it. The statements themselves are built by the
  model and returned in a log, in the order they are executed.
\<close>

datatype csv_content =
    Unreadable \<comment> \<open>\<^verbatim>\<open>open\<close> or the reader raises: caught by \<^verbatim>\<open>except Exception\<close>\<close>
  | Empty_File \<comment> \<open>\<^verbatim>\<open>next(reader)\<close> raises \<^verbatim>\<open>StopIteration\<close>\<close>
  | Rows "string list" "string list list" \<comment> \<open>the header row and the data rows\<close>

datatype sql_exception =
    OperationalError string \<comment> \<open>\<^verbatim>\<open>sqlite3.OperationalError\<close> with its message\<close>
  | IntegrityError string \<comment> \<open>\<^verbatim>\<open>sqlite3.IntegrityError\<close>, not a subclass of the former\<close>

datatype sql_outcome = Committed | Raised sql_exception

record source_file =
  filename :: string
  content :: csv_content
  sql_result :: sql_outcome

record sql_request =
  drop_statement :: string
  create_statement :: string
  insert_statement :: string
  insert_rows :: "string list list"

record table_spec =
  display_name :: string
  table_name :: string
  columns :: "string list"

datatype run_end =
    Returned "table_spec list"
  | SysExit nat \<comment> \<open>\<^verbatim>\<open>sys.exit(1)\<close>\<close>
  | Uncaught sql_exception \<comment> \<open>an exception no handler of the script catches\<close>

definition normalize_row :: "string list \<Rightarrow> string list \<Rightarrow> string list" where
  \<comment> \<open>the body of \<^verbatim>\<open>for row in reader\<close>: pad, then slice\<close>
  "normalize_row headers row =
     (let row = (if length row < length headers
                 then row @ replicate (length headers - length row) []
                 else row)
      in take (length headers) row)"

definition col_defs :: "string list \<Rightarrow> string list" where
  "col_defs headers =
     map (\<lambda>(i, col). if i = 0 then col @ '' TEXT PRIMARY KEY'' else col @ '' TEXT'')
       (enumerate 0 headers)"

definition build_request :: "string \<Rightarrow> string list \<Rightarrow> string list list \<Rightarrow> sql_request" where
  "build_request tbl headers rows_to_insert =
     \<lparr>drop_statement = ''DROP TABLE IF EXISTS '' @ tbl,
      create_statement =
        ''CREATE TABLE '' @ tbl @ '' ('' @ join '', '' (col_defs headers) @ '')'',
      insert_statement =
        ''INSERT INTO '' @ tbl @ '' VALUES (''
          @ join '', '' (replicate (length headers) ''?'') @ '')'',
      insert_rows = rows_to_insert\<rparr>"

fun process_files ::
  "source_file list \<Rightarrow> table_spec list \<Rightarrow> sql_request list \<Rightarrow> run_end \<times> sql_request list"
where
  "process_files [] processed_tables executed = (Returned processed_tables, executed)"
| "process_files (f # fs) processed_tables executed =
     (let raw_name = splitext_root (filename f);
          table_name = sanitize_sql_name raw_name
      in case content f of
           Unreadable \<Rightarrow> process_files fs processed_tables executed
         | Empty_File \<Rightarrow> process_files fs processed_tables executed
         | Rows raw_headers data \<Rightarrow>
             (let headers = map sanitize_sql_name raw_headers
              in if headers = [] then process_files fs processed_tables executed
                 else
                   (let rows_to_insert = map (normalize_row headers) data;
                        executed = executed @ [build_request table_name headers rows_to_insert]
                    in case sql_result f of
                         Committed \<Rightarrow>
                           process_files fs
                             (processed_tables @
                               [\<lparr>display_name = title (replace_char CHR ''_'' CHR '' '' raw_name),
                                 table_name = table_name,
                                 columns = headers\<rparr>])
                             executed
                       | Raised (OperationalError msg) \<Rightarrow>
                           if contains ''locked'' msg then (SysExit 1, executed)
                           else process_files fs processed_tables executed
                       | Raised e \<Rightarrow> (Uncaught e, executed))))"

definition update_database :: "source_file list option \<Rightarrow> run_end \<times> sql_request list" where
  \<comment> \<open>the argument is the listing of the CSV folder, \<open>None\<close> when the folder does not exist\<close>
  "update_database folder =
     (case folder of
        None \<Rightarrow> (Returned [], [])
      | Some listing \<Rightarrow>
          (let csv_files = filter (\<lambda>f. endswith (lower (filename f)) ''.csv'') listing
           in if csv_files = [] then (Returned [], []) else process_files csv_files [] []))"

section \<open>Phase 2: the descriptor\<close>

definition SYSTEM_COLUMNS :: "string list" where
  "SYSTEM_COLUMNS = [''part_id'', ''symbol'', ''footprint'']"

definition VISIBLE_COLUMNS :: "string list" where
  "VISIBLE_COLUMNS = [''value'', ''rating'']"

record field_entry =
  field_column :: string
  field_name :: string
  visible_on_add :: bool
  visible_in_chooser :: bool

record lib_entry =
  entry_name :: string
  entry_table :: string
  entry_key :: string
  entry_symbols :: string
  entry_footprints :: string
  entry_fields :: "field_entry list"
  entry_properties :: "(string \<times> string) list"

datatype py_error = IndexError

definition falsy :: "string option \<Rightarrow> bool" where
  \<comment> \<open>\<^verbatim>\<open>not x\<close> for \<^verbatim>\<open>x\<close> that is \<^verbatim>\<open>None\<close> or a \<^verbatim>\<open>str\<close>\<close>
  "falsy x = (case x of None \<Rightarrow> True | Some s \<Rightarrow> s = [])"

fun column_loop ::
  "string list \<Rightarrow> field_entry list \<Rightarrow> (string \<times> string) list
     \<Rightarrow> field_entry list \<times> (string \<times> string) list"
where
  \<comment> \<open>\<^verbatim>\<open>for col in cols\<close>; the dict \<^verbatim>\<open>properties\<close> is an association list in insertion
      order, and an assignment to a key already there keeps the key's place\<close>
  "column_loop [] flds properties = (flds, properties)"
| "column_loop (col # cols) flds properties =
     (let properties =
            (if lower col = ''value'' then AList.update ''Value'' col properties
             else AList.update col col properties);
          flds =
            (if col \<notin> set SYSTEM_COLUMNS
             then flds @
               [\<lparr>field_column = col,
                 field_name = get_column_display_name col,
                 visible_on_add = (lower col \<in> set (map lower VISIBLE_COLUMNS)),
                 visible_in_chooser = True\<rparr>]
             else flds)
      in column_loop cols flds properties)"

definition library_entry :: "table_spec \<Rightarrow> py_error + lib_entry option" where
  \<comment> \<open>the body of \<^verbatim>\<open>for table in tables_data\<close>: \<open>Inr None\<close> is \<^verbatim>\<open>continue\<close>\<close>
  "library_entry table =
     (let cols = columns table
      in case cols of
           [] \<Rightarrow> Inl IndexError
         | key_col # _ \<Rightarrow>
             (let sym_col = find (\<lambda>c. lower c = ''symbol'') cols;
                  fp_col = find (\<lambda>c. lower c = ''footprint'') cols
              in if falsy sym_col \<or> falsy fp_col then Inr None
                 else
                   (let (flds, properties) = column_loop cols [] []
                    in Inr (Some
                      \<lparr>entry_name = display_name table,
                       entry_table = table_name table,
                       entry_key = key_col,
                       entry_symbols = the sym_col,
                       entry_footprints = the fp_col,
                       entry_fields = flds,
                       entry_properties = properties\<rparr>))))"

fun table_loop :: "table_spec list \<Rightarrow> lib_entry list \<Rightarrow> py_error + lib_entry list" where
  "table_loop [] libraries = Inr libraries"
| "table_loop (table # tables) libraries =
     (case library_entry table of
        Inl e \<Rightarrow> Inl e
      | Inr None \<Rightarrow> table_loop tables libraries
      | Inr (Some lib_entry) \<Rightarrow> table_loop tables (libraries @ [lib_entry]))"

definition generate_kicad_dbl :: "table_spec list \<Rightarrow> py_error + lib_entry list" where
  \<comment> \<open>the \<^verbatim>\<open>libraries\<close> array of the document that is written; the rest of the document
      is constant\<close>
  "generate_kicad_dbl tables_data = table_loop tables_data []"

subsection \<open>Words of the specification\<close>

definition has_column :: "string \<Rightarrow> string list \<Rightarrow> bool" where
  \<comment> \<open>the column list has a column case-insensitively equal to the word\<close>
  "has_column word cols = (\<exists>c\<in>set cols. lower c = word)"


fun header_row :: "csv_content \<Rightarrow> string list" where
  \<comment> \<open>the header row a file gives, none when it cannot be read or is empty\<close>
  "header_row (Rows raw_headers data) = raw_headers"
| "header_row Unreadable = []"
| "header_row Empty_File = []"

fun data_rows :: "csv_content \<Rightarrow> string list list" where
  "data_rows (Rows raw_headers data) = data"
| "data_rows Unreadable = []"
| "data_rows Empty_File = []"

definition is_csv :: "source_file \<Rightarrow> bool" where
  "is_csv f = endswith (lower (filename f)) ''.csv''"

definition request_of :: "source_file \<Rightarrow> sql_request" where
  \<comment> \<open>the statements for a file, built from its sanitized stem and headers as they are\<close>
  "request_of f =
     build_request (sanitize_sql_name (splitext_root (filename f)))
       (map sanitize_sql_name (header_row (content f)))
       (map (normalize_row (map sanitize_sql_name (header_row (content f))))
          (data_rows (content f)))"

definition recorded_spec :: "source_file \<Rightarrow> table_spec" where
  \<comment> \<open>the TableSpec of a file, with every sanitized header as a column\<close>
  "recorded_spec f =
     \<lparr>display_name = title (replace_char CHR ''_'' CHR '' '' (splitext_root (filename f))),
      table_name = sanitize_sql_name (splitext_root (filename f)),
      columns = map sanitize_sql_name (header_row (content f))\<rparr>"

definition loaded :: "source_file \<Rightarrow> bool" where
  \<comment> \<open>the header row has a field and the engine committed the statements\<close>
  "loaded f = (header_row (content f) \<noteq> [] \<and> sql_result f = Committed)"

definition linkable :: "table_spec \<Rightarrow> bool" where
  \<comment> \<open>both a symbol and a footprint column, case-insensitively\<close>
  "linkable t = (has_column ''symbol'' (columns t) \<and> has_column ''footprint'' (columns t))"

section \<open>Properties of the name sanitizer\<close>

lemma char_range_listed:
  assumes "map (of_char :: char \<Rightarrow> nat) cs = [of_char lo ..< Suc (of_char hi)]"
  shows "char_range lo hi c \<longleftrightarrow> c \<in> set cs"
proof -
  have "char_range lo hi c \<longleftrightarrow> (of_char c :: nat) \<in> set [of_char lo ..< Suc (of_char hi)]"
    by (simp only: char_range_def set_upt atLeastLessThan_iff less_Suc_eq_le)
  also have "\<dots> \<longleftrightarrow> (of_char c :: nat) \<in> of_char ` set cs"
    by (simp only: assms [symmetric] set_map)
  also have "\<dots> \<longleftrightarrow> c \<in> set cs"
    by (rule inj_image_mem_iff) (rule inj_of_char)
  finally show ?thesis .
qed

lemma digit_range_listed:
  "char_range CHR ''0'' CHR ''9'' c \<longleftrightarrow> c \<in> set ''0123456789''"
  by (rule char_range_listed) code_simp

lemma lower_range_listed:
  "char_range CHR ''a'' CHR ''z'' c \<longleftrightarrow> c \<in> set ''abcdefghijklmnopqrstuvwxyz''"
  by (rule char_range_listed) code_simp

lemma upper_range_listed:
  "char_range CHR ''A'' CHR ''Z'' c \<longleftrightarrow> c \<in> set ''ABCDEFGHIJKLMNOPQRSTUVWXYZ''"
  by (rule char_range_listed) code_simp

lemma isdigit_listed: "isdigit c \<longleftrightarrow> c \<in> spec_digits"
  by (simp only: isdigit_def spec_digits_def digit_range_listed)

lemma spec_allowed_parts:
  "spec_allowed = set ''abcdefghijklmnopqrstuvwxyz'' \<union> set ''ABCDEFGHIJKLMNOPQRSTUVWXYZ''
      \<union> set ''0123456789'' \<union> {CHR ''_''}"
proof -
  have "''ABCDEFGHIJKLMNOPQRSTUVWXYZabcdefghijklmnopqrstuvwxyz0123456789_''
      = ''ABCDEFGHIJKLMNOPQRSTUVWXYZ'' @ ''abcdefghijklmnopqrstuvwxyz'' @ ''0123456789'' @ ''_''"
    by simp
  then have "spec_allowed = set ''ABCDEFGHIJKLMNOPQRSTUVWXYZ'' \<union> (set ''abcdefghijklmnopqrstuvwxyz''
      \<union> (set ''0123456789'' \<union> set ''_''))"
    by (simp only: spec_allowed_def set_append)
  also have "set ''_'' = {CHR ''_''}"
    by simp
  finally show ?thesis
    by (simp only: Un_assoc Un_left_commute Un_commute)
qed

lemma word_char_listed: "word_char c \<longleftrightarrow> c \<in> spec_allowed"
  by (simp only: spec_allowed_parts word_char_def lower_range_listed upper_range_listed
      digit_range_listed Un_iff singleton_iff disj_assoc)

lemma re_sub_replace: "re_sub_class p [r] s = map (\<lambda>c. if p c then r else c) s"
  by (induction s) (simp_all add: re_sub_class_def)

lemma re_sub_delete: "re_sub_class (\<lambda>c. \<not> p c) [] s = filter p s"
  by (induction s) (simp_all add: re_sub_class_def)

lemma sanitize_sql_name_unfold:
  "sanitize_sql_name x =
     (let r = filter word_char (map (\<lambda>c. if space_or_hyphen c then CHR ''_'' else c) x)
      in if r \<noteq> [] \<and> isdigit (hd r) then CHR ''_'' # r else r)"
  by (simp add: sanitize_sql_name_def re_sub_replace re_sub_delete Let_def)

lemma underscore_word_char: "word_char CHR ''_''"
  by (simp add: word_char_def)

lemma underscore_not_digit: "\<not> isdigit CHR ''_''"
  by (simp add: isdigit_def char_range_def)

lemma word_char_not_space_or_hyphen: "word_char c \<Longrightarrow> \<not> space_or_hyphen c"
  by (auto simp: word_char_def space_or_hyphen_def char_range_def)

lemma sanitize_word_chars: "c \<in> set (sanitize_sql_name x) \<Longrightarrow> word_char c"
  by (auto simp: sanitize_sql_name_unfold Let_def underscore_word_char split: if_splits)

lemma sanitize_no_leading_digit:
  "sanitize_sql_name x \<noteq> [] \<Longrightarrow> \<not> isdigit (hd (sanitize_sql_name x))"
  by (auto simp: sanitize_sql_name_unfold Let_def underscore_not_digit split: if_splits)

lemma sanitize_fixed:
  assumes "\<forall>c\<in>set s. word_char c" and "s \<noteq> [] \<longrightarrow> \<not> isdigit (hd s)"
  shows "sanitize_sql_name s = s"
proof -
  have "map (\<lambda>c. if space_or_hyphen c then CHR ''_'' else c) s = s"
    using assms(1) by (induction s) (simp_all add: word_char_not_space_or_hyphen)
  moreover have "filter word_char s = s"
    using assms(1) by (induction s) simp_all
  ultimately have "sanitize_sql_name s = (if s \<noteq> [] \<and> isdigit (hd s) then CHR ''_'' # s else s)"
    by (simp only: sanitize_sql_name_unfold Let_def)
  with assms(2) show ?thesis
    by (cases "s = []") simp_all
qed

text \<open>
  C1. For every input string the sanitizer returns what the three steps of the
  specification give: spaces and hyphens replaced by underscores, then every character
  outside \<^verbatim>\<open>[A-Za-z0-9_]\<close> removed, then an underscore put in front of a leading digit.
  The first substitution keeps the length, turns each space and each hyphen into an
  underscore, and leaves every other character as it is.
\<close>

theorem sanitize_sql_name_spec:
  "sanitize_sql_name x = spec_sanitize x
   \<and> length (re_sub_class space_or_hyphen ''_'' x) = length x
   \<and> (\<forall>i<length x.
        re_sub_class space_or_hyphen ''_'' x ! i =
          (if x ! i = CHR '' '' \<or> x ! i = CHR ''-'' then CHR ''_'' else x ! i))"
proof -
  have "filter word_char ys = filter (\<lambda>c. c \<in> spec_allowed) ys" for ys
    by (rule filter_cong) (simp_all add: word_char_listed)
  moreover have "map (\<lambda>c. if space_or_hyphen c then CHR ''_'' else c) x = spec_replace x"
    by (simp add: spec_replace_def space_or_hyphen_def)
  ultimately have "sanitize_sql_name x = spec_sanitize x"
    by (simp add: sanitize_sql_name_unfold spec_sanitize_def isdigit_listed)
  then show ?thesis
    by (simp add: re_sub_replace space_or_hyphen_def)
qed

theorem sanitize_sql_name_spec_witness:
  "sanitize_sql_name ''9 Part-No. (x)'' = ''_9_Part_No_x''
   \<and> spec_sanitize ''9 Part-No. (x)'' = ''_9_Part_No_x''
   \<and> re_sub_class space_or_hyphen ''_'' ''9 Part-No. (x)'' = ''9_Part_No._(x)''"
proof -
  have "sanitize_sql_name ''9 Part-No. (x)'' = ''_9_Part_No_x''"
    by (simp add: sanitize_sql_name_unfold word_char_def char_range_def isdigit_def
        space_or_hyphen_def)
  moreover have "re_sub_class space_or_hyphen ''_'' ''9 Part-No. (x)'' = ''9_Part_No._(x)''"
    by (simp add: re_sub_replace space_or_hyphen_def)
  ultimately show ?thesis
    using sanitize_sql_name_spec [of "''9 Part-No. (x)''"] by simp
qed

text \<open>
  C5. The sanitizer is idempotent: sanitizing a sanitized name returns it unchanged.
\<close>

theorem sanitize_sql_name_idempotent:
  "sanitize_sql_name (sanitize_sql_name x) = sanitize_sql_name x"
proof (rule sanitize_fixed)
  show "\<forall>c\<in>set (sanitize_sql_name x). word_char c"
    by (simp add: sanitize_word_chars)
  show "sanitize_sql_name x \<noteq> [] \<longrightarrow> \<not> isdigit (hd (sanitize_sql_name x))"
    by (simp add: sanitize_no_leading_digit)
qed

text \<open>
  C9. The output of the sanitizer never starts with one of the digits 0 to 9 and holds
  only letters A to Z and a to z, digits and the underscore.
\<close>

theorem sanitize_sql_name_safe:
  "(\<forall>c\<in>set (sanitize_sql_name x).
       c \<in> set ''ABCDEFGHIJKLMNOPQRSTUVWXYZabcdefghijklmnopqrstuvwxyz0123456789_'')
   \<and> (sanitize_sql_name x \<noteq> [] \<longrightarrow> hd (sanitize_sql_name x) \<notin> set ''0123456789'')"
proof -
  have "\<forall>c\<in>set (sanitize_sql_name x). c \<in> spec_allowed"
    using sanitize_word_chars [of _ x] by (simp add: word_char_listed)
  moreover have "sanitize_sql_name x \<noteq> [] \<longrightarrow> hd (sanitize_sql_name x) \<notin> spec_digits"
    using sanitize_no_leading_digit [of x] by (simp add: isdigit_listed)
  ultimately show ?thesis
    unfolding spec_allowed_def spec_digits_def by blast
qed

theorem sanitize_sql_name_safe_witness:
  "sanitize_sql_name ''0805 caps'' = ''_0805_caps''
   \<and> set (sanitize_sql_name ''0805 caps'')
       \<subseteq> set ''ABCDEFGHIJKLMNOPQRSTUVWXYZabcdefghijklmnopqrstuvwxyz0123456789_''
   \<and> hd (sanitize_sql_name ''0805 caps'') \<notin> set ''0123456789''"
proof -
  have e: "sanitize_sql_name ''0805 caps'' = ''_0805_caps''"
    by (simp add: sanitize_sql_name_unfold word_char_def char_range_def isdigit_def
        space_or_hyphen_def)
  have "sanitize_sql_name ''0805 caps'' \<noteq> []"
    by (simp add: e)
  then show ?thesis
    using sanitize_sql_name_safe [of "''0805 caps''"] e by blast
qed

end
